theory Spec2Isabelle
  imports Main "HOL-Library.Sublist"
begin

section \<open>The user entity of the chat client: data\<close>

text \<open>
  The source file \<^verbatim>\<open>user.go\<close> declares the \<^verbatim>\<open>User\<close> struct and its methods. The types
  \<^verbatim>\<open>Channel\<close>, \<^verbatim>\<open>Message\<close>, \<^verbatim>\<open>MessageEmbed\<close>, \<^verbatim>\<open>File\<close>, \<^verbatim>\<open>MessageSend\<close> and \<^verbatim>\<open>Session\<close>
  are declared elsewhere in the package. Of \<^verbatim>\<open>Channel\<close> and \<^verbatim>\<open>Message\<close> only the fields that
  \<^verbatim>\<open>user.go\<close> reads are kept; the other three data types are never inspected here and stay
  opaque. A Go pointer \<^verbatim>\<open>*T\<close> is a \<open>T option\<close>, with \<open>None\<close> for \<^verbatim>\<open>nil\<close>. A Go string is a
  byte sequence, here a \<open>string\<close>.
\<close>

typedecl MessageEmbed
typedecl File
typedecl MessageSend

text \<open>A non-nil value of Go's \<^verbatim>\<open>error\<close> interface; \<^verbatim>\<open>nil\<close> is \<open>None\<close> of \<open>error option\<close>.\<close>

datatype error = Error string

text \<open>The run-time panic that reading a field through a nil pointer raises.\<close>

datatype panic = NilPointerDereference

record Channel =
  ID :: string

record User =
  ID :: string
  Email :: string
  Username :: string
  Avatar :: string
  Locale :: string
  Discriminator :: string
  Token :: string
  Verified :: bool
  MFAEnabled :: bool
  DMChannel :: "Channel option"
  Bot :: bool

text \<open>
  \<^verbatim>\<open>IsMentionedIn\<close> reads \<^verbatim>\<open>message.MentionEveryone\<close> and ranges over
  \<^verbatim>\<open>message.Mentions\<close>, reading \<^verbatim>\<open>user.ID\<close> of each element. The elements are user
  pointers, so an entry may be nil; a slice of plain user values is the special case in which
  every entry is \<open>Some\<close>.
\<close>

record Message =
  MentionEveryone :: bool
  Mentions :: "User option list"

section \<open>External collaborators\<close>

text \<open>
  The three endpoint builders \<^verbatim>\<open>EndpointDefaultUserAvatar\<close>, \<^verbatim>\<open>EndpointUserAvatarAnimated\<close>
  and \<^verbatim>\<open>EndpointUserAvatar\<close> are package-level functions defined outside \<^verbatim>\<open>user.go\<close>. They
  are parameters of the model.
\<close>

record Endpoints =
  EndpointDefaultUserAvatar :: "string \<Rightarrow> string"
  EndpointUserAvatarAnimated :: "string \<Rightarrow> string \<Rightarrow> string"
  EndpointUserAvatar :: "string \<Rightarrow> string \<Rightarrow> string"

text \<open>
  Every call that leaves \<^verbatim>\<open>user.go\<close> for the session or for a channel is a network
  operation. The model records each of them, with its arguments and in order, in a log.
\<close>

datatype call =
    UserChannelCreateCall string
  | ChannelMessagesCall string int string string string
  | ChannelSendMessageCall "Channel option" string "MessageEmbed option" "File option list"
  | ChannelSendMessageComplexCall "Channel option" "MessageSend option"

text \<open>
  The session methods \<^verbatim>\<open>UserChannelCreate\<close> and \<^verbatim>\<open>ChannelMessages\<close> are defined outside
  \<^verbatim>\<open>user.go\<close>; they are parameters. Each returns its Go result pair (a value and an
  \<^verbatim>\<open>error\<close>), and what it returns may depend on the calls made so far, which it receives as
  its first argument. Nothing is assumed about the pair: a nil channel together with a nil
  error is a possible answer.
\<close>

record Session =
  UserChannelCreate :: "call list \<Rightarrow> string \<Rightarrow> Channel option \<times> error option"
  ChannelMessages ::
    "call list \<Rightarrow> string \<Rightarrow> int \<Rightarrow> string \<Rightarrow> string \<Rightarrow> string
      \<Rightarrow> Message option list \<times> error option"

text \<open>
  The channel methods \<^verbatim>\<open>(*Channel).SendMessage\<close> and \<^verbatim>\<open>(*Channel).SendMessageComplex\<close>
  are defined outside \<^verbatim>\<open>user.go\<close> as well. Their receiver is a channel pointer, which Go
  passes to the method even when it is nil. They take the log so far, the receiver, the
  session and the arguments of the call.
\<close>

record ChannelMethods =
  Channel_SendMessage ::
    "call list \<Rightarrow> Channel option \<Rightarrow> Session \<Rightarrow> string \<Rightarrow> MessageEmbed option
      \<Rightarrow> File option list \<Rightarrow> Message option \<times> error option"
  Channel_SendMessageComplex ::
    "call list \<Rightarrow> Channel option \<Rightarrow> Session \<Rightarrow> MessageSend option
      \<Rightarrow> Message option \<times> error option"

section \<open>The methods of User\<close>

subsection \<open>String formatting\<close>

definition User_String :: "User \<Rightarrow> string" where
  "User_String u = Username u @ ''#'' @ Discriminator u"

definition Mention :: "User \<Rightarrow> string" where
  "Mention u = ''<@'' @ User.ID u @ ''>''"

text \<open>Go's \<^verbatim>\<open>strings.HasPrefix(s, prefix)\<close>: the first \<^verbatim>\<open>len(prefix)\<close> bytes of \<^verbatim>\<open>s\<close> exist
  and equal \<^verbatim>\<open>prefix\<close>.\<close>

definition strings_HasPrefix :: "string \<Rightarrow> string \<Rightarrow> bool" where
  "strings_HasPrefix s pre = (length pre \<le> length s \<and> take (length pre) s = pre)"

definition IsAvatarAnimated :: "User \<Rightarrow> bool" where
  "IsAvatarAnimated u = strings_HasPrefix (Avatar u) ''a_''"

definition AvatarURL :: "Endpoints \<Rightarrow> User \<Rightarrow> string \<Rightarrow> string" where
  "AvatarURL ep u sz =
     (let URL =
        (if Avatar u = '''' then EndpointDefaultUserAvatar ep (Discriminator u)
         else if strings_HasPrefix (Avatar u) ''a_''
           then EndpointUserAvatarAnimated ep (User.ID u) (Avatar u)
         else EndpointUserAvatar ep (User.ID u) (Avatar u))
      in if sz \<noteq> '''' then URL @ ''?size='' @ sz else URL)"

subsection \<open>Mentions\<close>

text \<open>The \<^verbatim>\<open>for ... range message.Mentions\<close> loop of \<^verbatim>\<open>IsMentionedIn\<close>: it returns at the
  first element whose ID is the user's, and reading \<^verbatim>\<open>user.ID\<close> of a nil element panics.\<close>

fun mentions_loop :: "User \<Rightarrow> User option list \<Rightarrow> panic + bool" where
  "mentions_loop u [] = Inr False"
| "mentions_loop u (None # rest) = Inl NilPointerDereference"
| "mentions_loop u (Some user # rest) =
     (if User.ID user = User.ID u then Inr True else mentions_loop u rest)"

definition IsMentionedIn :: "User \<Rightarrow> Message \<Rightarrow> panic + bool" where
  "IsMentionedIn u message =
     (if MentionEveryone message then Inr True
      else mentions_loop u (Mentions message))"

subsection \<open>The direct-message channel\<close>

text \<open>
  The methods below mutate the user (\<^verbatim>\<open>u.DMChannel = channel\<close>) and call out to the session.
  Each takes the user and the log of calls made so far, and returns its Go result together
  with the user and the log as they are when it returns.
\<close>

definition CreateDM :: "Session \<Rightarrow> User \<Rightarrow> call list \<Rightarrow> error option \<times> User \<times> call list" where
  "CreateDM s u tr =
     (if DMChannel u \<noteq> None then (None, u, tr)
      else
        (case UserChannelCreate s tr (User.ID u) of
           (channel, err) \<Rightarrow>
             (err,
              if err = None then u\<lparr>DMChannel := channel\<rparr> else u,
              tr @ [UserChannelCreateCall (User.ID u)])))"

text \<open>
  In \<^verbatim>\<open>SendMessage\<close> and \<^verbatim>\<open>SendMessageComplex\<close> the named result \<^verbatim>\<open>err\<close> is nil unless
  \<^verbatim>\<open>DMChannel\<close> was nil and \<^verbatim>\<open>CreateDM\<close> has been called; a non-nil \<^verbatim>\<open>err\<close> returns at once,
  with the named result \<^verbatim>\<open>message\<close> still nil. Otherwise the channel method is called on
  \<^verbatim>\<open>u.DMChannel\<close> as it is then, and its result pair is returned.
\<close>

definition SendMessage ::
  "ChannelMethods \<Rightarrow> Session \<Rightarrow> User \<Rightarrow> string \<Rightarrow> MessageEmbed option \<Rightarrow> File option list
    \<Rightarrow> call list \<Rightarrow> (Message option \<times> error option) \<times> User \<times> call list" where
  "SendMessage cm s u content emb files tr =
     (case (if DMChannel u = None then CreateDM s u tr else (None, u, tr)) of
        (err, u', tr') \<Rightarrow>
          if err \<noteq> None then ((None, err), u', tr')
          else
            (Channel_SendMessage cm tr' (DMChannel u') s content emb files,
             u',
             tr' @ [ChannelSendMessageCall (DMChannel u') content emb files]))"

definition SendMessageComplex ::
  "ChannelMethods \<Rightarrow> Session \<Rightarrow> User \<Rightarrow> MessageSend option
    \<Rightarrow> call list \<Rightarrow> (Message option \<times> error option) \<times> User \<times> call list" where
  "SendMessageComplex cm s u data tr =
     (case (if DMChannel u = None then CreateDM s u tr else (None, u, tr)) of
        (err, u', tr') \<Rightarrow>
          if err \<noteq> None then ((None, err), u', tr')
          else
            (Channel_SendMessageComplex cm tr' (DMChannel u') s data,
             u',
             tr' @ [ChannelSendMessageComplexCall (DMChannel u') data]))"

text \<open>\<^verbatim>\<open>GetHistory\<close> reads \<^verbatim>\<open>u.DMChannel.ID\<close> to build the argument of the session call, so
  a nil \<^verbatim>\<open>DMChannel\<close> panics before any call is made.\<close>

definition GetHistory ::
  "Session \<Rightarrow> User \<Rightarrow> int \<Rightarrow> string \<Rightarrow> string \<Rightarrow> string \<Rightarrow> call list
    \<Rightarrow> (panic + Message option list \<times> error option) \<times> User \<times> call list" where
  "GetHistory s u limit beforeID afterID aroundID tr =
     (case DMChannel u of
        None \<Rightarrow> (Inl NilPointerDereference, u, tr)
      | Some c \<Rightarrow>
          (Inr (ChannelMessages s tr (Channel.ID c) limit beforeID afterID aroundID),
           u,
           tr @ [ChannelMessagesCall (Channel.ID c) limit beforeID afterID aroundID]))"

section \<open>A sample user, session and channel behaviour\<close>

text \<open>Concrete values on which the statements below are evaluated: a user with an animated
  avatar and no direct-message channel yet, the same user once the channel exists, a session
  whose channel creation succeeds, one whose channel creation fails, and channel methods
  that answer with a message that mentions everyone.\<close>

definition sample_channel :: Channel where
  "sample_channel = \<lparr>Channel.ID = ''dm-17''\<rparr>"

definition sample_user :: User where
  "sample_user =
     \<lparr>User.ID = ''8035'', Email = '''', Username = ''nelly'', Avatar = ''a_83f5'',
      Locale = ''en-US'', Discriminator = ''1337'', Token = '''', Verified = True,
      MFAEnabled = False, DMChannel = None, Bot = False\<rparr>"

definition sample_user_dm :: User where
  "sample_user_dm = sample_user\<lparr>DMChannel := Some sample_channel\<rparr>"

definition sample_message :: Message where
  "sample_message = \<lparr>MentionEveryone = True, Mentions = []\<rparr>"

definition sample_endpoints :: Endpoints where
  "sample_endpoints =
     \<lparr>EndpointDefaultUserAvatar =
        (\<lambda>uDiscriminator. ''embed/avatars/'' @ uDiscriminator @ ''.png''),
      EndpointUserAvatarAnimated =
        (\<lambda>uID aID. ''avatars/'' @ uID @ ''/'' @ aID @ ''.gif''),
      EndpointUserAvatar =
        (\<lambda>uID aID. ''avatars/'' @ uID @ ''/'' @ aID @ ''.png'')\<rparr>"

definition session_up :: Session where
  "session_up =
     \<lparr>UserChannelCreate = (\<lambda>tr recipientID. (Some sample_channel, None)),
      ChannelMessages =
        (\<lambda>tr channelID limit beforeID afterID aroundID. ([Some sample_message], None))\<rparr>"

definition session_down :: Session where
  "session_down =
     \<lparr>UserChannelCreate = (\<lambda>tr recipientID. (None, Some (Error ''503''))),
      ChannelMessages =
        (\<lambda>tr channelID limit beforeID afterID aroundID. ([], Some (Error ''503'')))\<rparr>"

definition sample_methods :: ChannelMethods where
  "sample_methods =
     \<lparr>Channel_SendMessage = (\<lambda>tr c s content emb files. (Some sample_message, None)),
      Channel_SendMessageComplex = (\<lambda>tr c s data. (Some sample_message, None))\<rparr>"

section \<open>Auxiliary facts\<close>

text \<open>Go's prefix test agrees with the prefix order on lists.\<close>

lemma strings_HasPrefix_prefix: "strings_HasPrefix s pre = prefix pre s"
  unfolding strings_HasPrefix_def
  by (metis append_eq_conv_conj prefix_def prefix_length_le take_is_prefix)

text \<open>On a mention list without nil entries the loop finishes and is a membership test.\<close>

lemma mentions_loop_no_nil:
  "None \<notin> set ms \<Longrightarrow>
   mentions_loop u ms = Inr (\<exists>user. Some user \<in> set ms \<and> User.ID user = User.ID u)"
  by (induction u ms rule: mentions_loop.induct) auto

text \<open>The two paths of \<^verbatim>\<open>CreateDM\<close>, and what they make of the two sending methods.\<close>

lemma CreateDM_present: "DMChannel u \<noteq> None \<Longrightarrow> CreateDM s u tr = (None, u, tr)"
  by (simp add: CreateDM_def)

lemma CreateDM_absent:
  "DMChannel u = None \<Longrightarrow> UserChannelCreate s tr (User.ID u) = (channel, err) \<Longrightarrow>
   CreateDM s u tr =
     (err, if err = None then u\<lparr>DMChannel := channel\<rparr> else u,
      tr @ [UserChannelCreateCall (User.ID u)])"
  by (simp add: CreateDM_def)

lemma SendMessage_present:
  "DMChannel u = Some c \<Longrightarrow>
   SendMessage cm s u content emb files tr =
     (Channel_SendMessage cm tr (Some c) s content emb files, u,
      tr @ [ChannelSendMessageCall (Some c) content emb files])"
  by (simp add: SendMessage_def)

lemma SendMessage_absent:
  "DMChannel u = None \<Longrightarrow> UserChannelCreate s tr (User.ID u) = (channel, err) \<Longrightarrow>
   SendMessage cm s u content emb files tr =
     (if err = None
      then (Channel_SendMessage cm (tr @ [UserChannelCreateCall (User.ID u)]) channel s
              content emb files,
            u\<lparr>DMChannel := channel\<rparr>,
            tr @ [UserChannelCreateCall (User.ID u),
                  ChannelSendMessageCall channel content emb files])
      else ((None, err), u, tr @ [UserChannelCreateCall (User.ID u)]))"
  by (simp add: SendMessage_def CreateDM_absent)

lemma SendMessageComplex_present:
  "DMChannel u = Some c \<Longrightarrow>
   SendMessageComplex cm s u data tr =
     (Channel_SendMessageComplex cm tr (Some c) s data, u,
      tr @ [ChannelSendMessageComplexCall (Some c) data])"
  by (simp add: SendMessageComplex_def)

lemma SendMessageComplex_absent:
  "DMChannel u = None \<Longrightarrow> UserChannelCreate s tr (User.ID u) = (channel, err) \<Longrightarrow>
   SendMessageComplex cm s u data tr =
     (if err = None
      then (Channel_SendMessageComplex cm (tr @ [UserChannelCreateCall (User.ID u)]) channel s
              data,
            u\<lparr>DMChannel := channel\<rparr>,
            tr @ [UserChannelCreateCall (User.ID u),
                  ChannelSendMessageComplexCall channel data])
      else ((None, err), u, tr @ [UserChannelCreateCall (User.ID u)]))"
  by (simp add: SendMessageComplex_def CreateDM_absent)

text \<open>The sample values, evaluated.\<close>

lemma sample_user_nil: "DMChannel sample_user = None"
  by (simp add: sample_user_def)

lemma sample_user_dm_channel: "DMChannel sample_user_dm = Some sample_channel"
  by (simp add: sample_user_dm_def)

lemma session_up_creates:
  "UserChannelCreate session_up [] (User.ID sample_user) = (Some sample_channel, None)"
  by (simp add: session_up_def)

lemma session_down_fails:
  "UserChannelCreate session_down [] (User.ID sample_user) = (None, Some (Error ''503''))"
  by (simp add: session_down_def)

section \<open>Lazy creation of the direct-message channel\<close>

text \<open>
  Claim C1, as the specification states it: each of the three delegating methods
  (\<^verbatim>\<open>SendMessage\<close>, \<^verbatim>\<open>SendMessageComplex\<close> and \<^verbatim>\<open>GetHistory\<close>) creates and caches the
  user's DM channel before delegating when \<^verbatim>\<open>DMChannel\<close> is nil. This fails for
  \<^verbatim>\<open>GetHistory\<close>: on the sample user, whose \<^verbatim>\<open>DMChannel\<close> is nil, and with a session whose
  channel creation would succeed, \<^verbatim>\<open>GetHistory\<close> panics, makes no session call and leaves
  \<^verbatim>\<open>DMChannel\<close> nil.
\<close>

theorem GetHistory_no_lazy_creation_counterexample:
  "DMChannel sample_user = None
   \<and> UserChannelCreate session_up [] (User.ID sample_user) = (Some sample_channel, None)
   \<and> GetHistory session_up sample_user 50 '''' '''' '''' []
       = (Inl NilPointerDereference, sample_user, [])"
  by (simp add: GetHistory_def sample_user_def session_up_def)

text \<open>
  Claim C1, amended: for every user whose \<^verbatim>\<open>DMChannel\<close> is nil, \<^verbatim>\<open>SendMessage\<close> and
  \<^verbatim>\<open>SendMessageComplex\<close> first call the session's channel creation with the user's ID; when
  that call returns no error, the returned channel is stored in \<^verbatim>\<open>DMChannel\<close> and the
  delegated send on that channel is the next and last call; when it returns an error,
  no further call is made.
\<close>

theorem send_creates_channel_first:
  assumes "DMChannel u = None"
    and "UserChannelCreate s tr (User.ID u) = (channel, err)"
  shows "snd (snd (SendMessage cm s u content emb files tr)) =
           tr @ UserChannelCreateCall (User.ID u)
              # (if err = None then [ChannelSendMessageCall channel content emb files] else [])
       \<and> snd (snd (SendMessageComplex cm s u data tr)) =
           tr @ UserChannelCreateCall (User.ID u)
              # (if err = None then [ChannelSendMessageComplexCall channel data] else [])
       \<and> (err = None \<longrightarrow>
            DMChannel (fst (snd (SendMessage cm s u content emb files tr))) = channel
          \<and> DMChannel (fst (snd (SendMessageComplex cm s u data tr))) = channel)"
  using assms by (simp add: SendMessage_absent SendMessageComplex_absent)

theorem send_creates_channel_first_witness:
  "DMChannel sample_user = None
   \<and> UserChannelCreate session_up [] (User.ID sample_user) = (Some sample_channel, None)
   \<and> snd (snd (SendMessage sample_methods session_up sample_user ''hi'' None [] [])) =
        [UserChannelCreateCall ''8035'',
         ChannelSendMessageCall (Some sample_channel) ''hi'' None []]
   \<and> snd (snd (SendMessageComplex sample_methods session_up sample_user None [])) =
        [UserChannelCreateCall ''8035'',
         ChannelSendMessageComplexCall (Some sample_channel) None]
   \<and> DMChannel (fst (snd (SendMessage sample_methods session_up sample_user ''hi'' None [] [])))
        = Some sample_channel
   \<and> DMChannel (fst (snd (SendMessageComplex sample_methods session_up sample_user None [])))
        = Some sample_channel"
  using sample_user_nil session_up_creates
    send_creates_channel_first [OF sample_user_nil session_up_creates,
      of sample_methods "''hi''" None "[]" None]
  by (simp add: sample_user_def)

section \<open>GetHistory on a user without a channel\<close>

text \<open>
  Claim C2: \<^verbatim>\<open>GetHistory\<close> reads \<^verbatim>\<open>u.DMChannel.ID\<close> with no nil check and no lazy creation.
  Its result is the nil-dereference panic exactly when \<^verbatim>\<open>DMChannel\<close> is nil, and then the
  user is unchanged and no session call has been made.
\<close>

theorem GetHistory_nil_dereference:
  "(fst (GetHistory s u limit beforeID afterID aroundID tr) = Inl NilPointerDereference)
     = (DMChannel u = None)
   \<and> (DMChannel u = None \<longrightarrow>
        GetHistory s u limit beforeID afterID aroundID tr = (Inl NilPointerDereference, u, tr))"
  by (simp add: GetHistory_def split: option.split)

theorem GetHistory_nil_dereference_witness:
  "DMChannel sample_user = None
   \<and> GetHistory session_up sample_user 50 '''' '''' '''' []
       = (Inl NilPointerDereference, sample_user, [])
   \<and> DMChannel sample_user_dm \<noteq> None
   \<and> fst (GetHistory session_up sample_user_dm 50 '''' '''' '''' [])
       \<noteq> Inl NilPointerDereference"
  using GetHistory_nil_dereference [of session_up sample_user 50 "''''" "''''" "''''" "[]"]
        GetHistory_nil_dereference [of session_up sample_user_dm 50 "''''" "''''" "''''" "[]"]
  by (simp add: sample_user_def sample_user_dm_def)

section \<open>Mentions\<close>

text \<open>
  Claim C3, as the specification states it: \<^verbatim>\<open>IsMentionedIn(u, m)\<close> is true if and only if
  some element of \<^verbatim>\<open>m.Mentions\<close> has the ID of \<^verbatim>\<open>u\<close>. This fails on a message that
  mentions everyone: the sample message has an empty mention list, and the sample user is
  mentioned in it.
\<close>

theorem IsMentionedIn_list_only_counterexample:
  "IsMentionedIn sample_user sample_message = Inr True
   \<and> Mentions sample_message = []"
  by (simp add: IsMentionedIn_def sample_message_def)

text \<open>
  Claim C3, amended: for every user \<^verbatim>\<open>u\<close> and every message \<^verbatim>\<open>m\<close> (whose mention list has
  no nil entry), \<^verbatim>\<open>IsMentionedIn(u, m)\<close> returns true if and only if \<^verbatim>\<open>m.MentionEveryone\<close> is
  set or some element of \<^verbatim>\<open>m.Mentions\<close> has an ID equal to \<^verbatim>\<open>u.ID\<close>.
\<close>

theorem IsMentionedIn_membership:
  "None \<notin> set (Mentions m) \<Longrightarrow>
   IsMentionedIn u m =
     Inr (MentionEveryone m
          \<or> (\<exists>user. Some user \<in> set (Mentions m) \<and> User.ID user = User.ID u))"
  by (simp add: IsMentionedIn_def mentions_loop_no_nil)

theorem IsMentionedIn_membership_witness:
  "None \<notin> set [Some (sample_user_dm\<lparr>User.ID := ''77''\<rparr>), Some sample_user]
   \<and> IsMentionedIn sample_user
        \<lparr>MentionEveryone = False,
         Mentions = [Some (sample_user_dm\<lparr>User.ID := ''77''\<rparr>), Some sample_user]\<rparr> = Inr True
   \<and> IsMentionedIn sample_user
        \<lparr>MentionEveryone = False,
         Mentions = [Some (sample_user_dm\<lparr>User.ID := ''77''\<rparr>)]\<rparr> = Inr False"
  using IsMentionedIn_membership
          [of "\<lparr>MentionEveryone = False,
                Mentions = [Some (sample_user_dm\<lparr>User.ID := ''77''\<rparr>), Some sample_user]\<rparr>"
              sample_user]
        IsMentionedIn_membership
          [of "\<lparr>MentionEveryone = False,
                Mentions = [Some (sample_user_dm\<lparr>User.ID := ''77''\<rparr>)]\<rparr>"
              sample_user]
  by (simp add: sample_user_def sample_user_dm_def conj_disj_distribR ex_disj_distrib)

text \<open>
  Claim C9: when \<^verbatim>\<open>m.MentionEveryone\<close> is set, \<^verbatim>\<open>IsMentionedIn(u, m)\<close> returns true for every
  user, whatever the mention list holds (empty, without the user, or with nil entries).
\<close>

theorem IsMentionedIn_everyone:
  "MentionEveryone m \<Longrightarrow> IsMentionedIn u m = Inr True"
  by (simp add: IsMentionedIn_def)

theorem IsMentionedIn_everyone_witness:
  "MentionEveryone sample_message \<and> Mentions sample_message = []
   \<and> IsMentionedIn sample_user sample_message = Inr True"
  using IsMentionedIn_everyone [of sample_message sample_user]
  by (simp add: sample_message_def)

section \<open>The avatar URL\<close>

text \<open>
  Claim C4: \<^verbatim>\<open>AvatarURL\<close> is a three-way choice followed by an optional suffix. With an
  empty avatar hash the base is the default-avatar endpoint of the discriminator; otherwise,
  with a hash that starts with \<^verbatim>\<open>a_\<close>, it is the animated-avatar endpoint of the ID and the
  hash; otherwise the plain-avatar endpoint of the ID and the hash. The text \<^verbatim>\<open>?size=\<close>
  followed by the size is appended exactly when the size is not empty.
  \<^verbatim>\<open>IsAvatarAnimated\<close> is the prefix test of the second case.
\<close>

theorem AvatarURL_three_way:
  "AvatarURL ep u sz =
     (if Avatar u = '''' then EndpointDefaultUserAvatar ep (Discriminator u)
      else if prefix ''a_'' (Avatar u)
        then EndpointUserAvatarAnimated ep (User.ID u) (Avatar u)
      else EndpointUserAvatar ep (User.ID u) (Avatar u))
     @ (if sz = '''' then '''' else ''?size='' @ sz)
   \<and> IsAvatarAnimated u = prefix ''a_'' (Avatar u)"
  by (simp add: AvatarURL_def IsAvatarAnimated_def strings_HasPrefix_prefix Let_def)

theorem AvatarURL_three_way_witness:
  "AvatarURL sample_endpoints sample_user ''128'' = ''avatars/8035/a_83f5.gif?size=128''
   \<and> AvatarURL sample_endpoints sample_user '''' = ''avatars/8035/a_83f5.gif''
   \<and> AvatarURL sample_endpoints (sample_user\<lparr>Avatar := ''83f5''\<rparr>) ''64''
       = ''avatars/8035/83f5.png?size=64''
   \<and> AvatarURL sample_endpoints (sample_user\<lparr>Avatar := ''''\<rparr>) ''''
       = ''embed/avatars/1337.png''
   \<and> IsAvatarAnimated sample_user"
  using AvatarURL_three_way [of sample_endpoints sample_user "''128''"]
        AvatarURL_three_way [of sample_endpoints sample_user "''''"]
        AvatarURL_three_way [of sample_endpoints "sample_user\<lparr>Avatar := ''83f5''\<rparr>" "''64''"]
        AvatarURL_three_way [of sample_endpoints "sample_user\<lparr>Avatar := ''''\<rparr>" "''''"]
  by (simp add: sample_endpoints_def sample_user_def)

section \<open>CreateDM\<close>

text \<open>
  Claim C5: for every user whose \<^verbatim>\<open>DMChannel\<close> is nil, \<^verbatim>\<open>CreateDM\<close> calls the session's
  channel creation once, with exactly the user's ID. If the call returns no error,
  \<^verbatim>\<open>CreateDM\<close> stores the returned channel in \<^verbatim>\<open>DMChannel\<close> and returns no error; if it
  returns an error, \<^verbatim>\<open>CreateDM\<close> returns that error.
\<close>

theorem CreateDM_calls_session:
  assumes "DMChannel u = None"
    and "UserChannelCreate s tr (User.ID u) = (channel, err)"
  shows "snd (snd (CreateDM s u tr)) = tr @ [UserChannelCreateCall (User.ID u)]
       \<and> (err = None \<longrightarrow>
            CreateDM s u tr =
              (None, u\<lparr>DMChannel := channel\<rparr>, tr @ [UserChannelCreateCall (User.ID u)]))
       \<and> (err \<noteq> None \<longrightarrow> fst (CreateDM s u tr) = err)"
  using assms by (simp add: CreateDM_absent)

theorem CreateDM_calls_session_witness:
  "DMChannel sample_user = None
   \<and> CreateDM session_up sample_user [] =
        (None, sample_user_dm, [UserChannelCreateCall ''8035''])
   \<and> fst (CreateDM session_down sample_user []) = Some (Error ''503'')
   \<and> snd (snd (CreateDM session_down sample_user [])) = [UserChannelCreateCall ''8035'']"
  using sample_user_nil
    CreateDM_calls_session [OF sample_user_nil session_up_creates]
    CreateDM_calls_session [OF sample_user_nil session_down_fails]
  by (simp add: sample_user_def sample_user_dm_def)

text \<open>
  Claim C6: on a user whose \<^verbatim>\<open>DMChannel\<close> is not nil, \<^verbatim>\<open>CreateDM\<close> returns no error, makes
  no session call and leaves the user, every field of it, as it was. Calling it again on
  what it returned therefore gives the same again.
\<close>

theorem CreateDM_existing_channel:
  assumes "DMChannel u \<noteq> None"
  shows "CreateDM s u tr = (None, u, tr)
       \<and> CreateDM s (fst (snd (CreateDM s u tr))) (snd (snd (CreateDM s u tr)))
           = CreateDM s u tr"
  using assms by (simp add: CreateDM_present)

theorem CreateDM_existing_channel_witness:
  "DMChannel sample_user_dm \<noteq> None
   \<and> CreateDM session_up sample_user_dm [] = (None, sample_user_dm, [])
   \<and> CreateDM session_up (fst (snd (CreateDM session_up sample_user_dm [])))
        (snd (snd (CreateDM session_up sample_user_dm [])))
       = (None, sample_user_dm, [])"
proof -
  have dm: "DMChannel sample_user_dm \<noteq> None"
    by (simp add: sample_user_dm_channel)
  show ?thesis
    using dm CreateDM_existing_channel [OF dm, of session_up "[]"]
    by simp
qed

text \<open>
  Claim C10: for every user whose \<^verbatim>\<open>DMChannel\<close> is nil, if the session's channel creation
  returns an error, then \<^verbatim>\<open>CreateDM\<close> returns it and leaves the user unchanged, with
  \<^verbatim>\<open>DMChannel\<close> still nil, and \<^verbatim>\<open>SendMessage\<close> and \<^verbatim>\<open>SendMessageComplex\<close> return a nil
  message with that same error; the creation call is the only call made, so no send is
  attempted.
\<close>

theorem creation_failure_propagates:
  assumes "DMChannel u = None"
    and "UserChannelCreate s tr (User.ID u) = (channel, Some e)"
  shows "CreateDM s u tr = (Some e, u, tr @ [UserChannelCreateCall (User.ID u)])
       \<and> SendMessage cm s u content emb files tr =
           ((None, Some e), u, tr @ [UserChannelCreateCall (User.ID u)])
       \<and> SendMessageComplex cm s u data tr =
           ((None, Some e), u, tr @ [UserChannelCreateCall (User.ID u)])"
  using assms by (simp add: CreateDM_absent SendMessage_absent SendMessageComplex_absent)

theorem creation_failure_propagates_witness:
  "DMChannel sample_user = None
   \<and> CreateDM session_down sample_user [] =
       (Some (Error ''503''), sample_user, [UserChannelCreateCall ''8035''])
   \<and> SendMessage sample_methods session_down sample_user ''hi'' None [] [] =
       ((None, Some (Error ''503'')), sample_user, [UserChannelCreateCall ''8035''])
   \<and> SendMessageComplex sample_methods session_down sample_user None [] =
       ((None, Some (Error ''503'')), sample_user, [UserChannelCreateCall ''8035''])"
  using sample_user_nil
    creation_failure_propagates [OF sample_user_nil session_down_fails,
      of sample_methods "''hi''" None "[]" None]
  by (simp add: sample_user_def)

section \<open>Delegation\<close>

text \<open>
  Claim C7: once the DM channel is there, \<^verbatim>\<open>SendMessage\<close> and \<^verbatim>\<open>SendMessageComplex\<close> only
  delegate. For a user whose \<^verbatim>\<open>DMChannel\<close> is a channel \<^verbatim>\<open>c\<close> from the start, each method
  returns exactly the pair of message and error that the channel's method of the same name
  returns for \<^verbatim>\<open>c\<close>, the session and the unchanged arguments; that channel call is the only
  call made and the user is unchanged. For a user whose \<^verbatim>\<open>DMChannel\<close> is nil and for whom
  the session's creation returns a channel \<^verbatim>\<open>c\<close> and no error, each method returns exactly
  what the channel's method returns for \<^verbatim>\<open>c\<close>, the session and the unchanged arguments;
  the calls made are the creation and then that channel call, and the user differs only in
  that \<^verbatim>\<open>DMChannel\<close> is now \<^verbatim>\<open>c\<close>.
\<close>

theorem send_is_delegation:
  "(DMChannel u = Some c \<longrightarrow>
      SendMessage cm s u content emb files tr =
        (Channel_SendMessage cm tr (Some c) s content emb files,
         u,
         tr @ [ChannelSendMessageCall (Some c) content emb files])
    \<and> SendMessageComplex cm s u data tr =
        (Channel_SendMessageComplex cm tr (Some c) s data,
         u,
         tr @ [ChannelSendMessageComplexCall (Some c) data]))
   \<and> (DMChannel u = None \<and> UserChannelCreate s tr (User.ID u) = (Some c, None) \<longrightarrow>
      SendMessage cm s u content emb files tr =
        (Channel_SendMessage cm (tr @ [UserChannelCreateCall (User.ID u)]) (Some c) s
           content emb files,
         u\<lparr>DMChannel := Some c\<rparr>,
         tr @ [UserChannelCreateCall (User.ID u),
               ChannelSendMessageCall (Some c) content emb files])
    \<and> SendMessageComplex cm s u data tr =
        (Channel_SendMessageComplex cm (tr @ [UserChannelCreateCall (User.ID u)]) (Some c) s
           data,
         u\<lparr>DMChannel := Some c\<rparr>,
         tr @ [UserChannelCreateCall (User.ID u),
               ChannelSendMessageComplexCall (Some c) data]))"
proof (intro conjI impI)
  assume present: "DMChannel u = Some c"
  show "SendMessage cm s u content emb files tr =
        (Channel_SendMessage cm tr (Some c) s content emb files, u,
         tr @ [ChannelSendMessageCall (Some c) content emb files])"
    by (rule SendMessage_present [OF present])
  show "SendMessageComplex cm s u data tr =
        (Channel_SendMessageComplex cm tr (Some c) s data, u,
         tr @ [ChannelSendMessageComplexCall (Some c) data])"
    by (rule SendMessageComplex_present [OF present])
next
  assume absent: "DMChannel u = None \<and> UserChannelCreate s tr (User.ID u) = (Some c, None)"
  then have nil: "DMChannel u = None"
    and created: "UserChannelCreate s tr (User.ID u) = (Some c, None)"
    by simp_all
  show "SendMessage cm s u content emb files tr =
        (Channel_SendMessage cm (tr @ [UserChannelCreateCall (User.ID u)]) (Some c) s
           content emb files,
         u\<lparr>DMChannel := Some c\<rparr>,
         tr @ [UserChannelCreateCall (User.ID u),
               ChannelSendMessageCall (Some c) content emb files])"
    by (simp add: SendMessage_absent [OF nil created])
  show "SendMessageComplex cm s u data tr =
        (Channel_SendMessageComplex cm (tr @ [UserChannelCreateCall (User.ID u)]) (Some c) s
           data,
         u\<lparr>DMChannel := Some c\<rparr>,
         tr @ [UserChannelCreateCall (User.ID u),
               ChannelSendMessageComplexCall (Some c) data])"
    by (simp add: SendMessageComplex_absent [OF nil created])
qed

theorem send_is_delegation_witness:
  "DMChannel sample_user_dm = Some sample_channel
   \<and> SendMessage sample_methods session_down sample_user_dm ''hi'' None [] [] =
       (Channel_SendMessage sample_methods [] (Some sample_channel) session_down ''hi'' None [],
        sample_user_dm,
        [ChannelSendMessageCall (Some sample_channel) ''hi'' None []])
   \<and> SendMessageComplex sample_methods session_down sample_user_dm None [] =
       (Channel_SendMessageComplex sample_methods [] (Some sample_channel) session_down None,
        sample_user_dm,
        [ChannelSendMessageComplexCall (Some sample_channel) None])
   \<and> DMChannel sample_user = None
   \<and> UserChannelCreate session_up [] (User.ID sample_user) = (Some sample_channel, None)
   \<and> SendMessage sample_methods session_up sample_user ''hi'' None [] [] =
       (Channel_SendMessage sample_methods [UserChannelCreateCall ''8035'']
          (Some sample_channel) session_up ''hi'' None [],
        sample_user_dm,
        [UserChannelCreateCall ''8035'',
         ChannelSendMessageCall (Some sample_channel) ''hi'' None []])
   \<and> SendMessageComplex sample_methods session_up sample_user None [] =
       (Channel_SendMessageComplex sample_methods [UserChannelCreateCall ''8035'']
          (Some sample_channel) session_up None,
        sample_user_dm,
        [UserChannelCreateCall ''8035'',
         ChannelSendMessageComplexCall (Some sample_channel) None])"
  using sample_user_dm_channel sample_user_nil session_up_creates
    send_is_delegation [of sample_user_dm sample_channel sample_methods session_down
      "''hi''" None "[]" "[]" None]
    send_is_delegation [of sample_user sample_channel sample_methods session_up
      "''hi''" None "[]" "[]" None]
  by (simp add: sample_user_def sample_user_dm_def)

text \<open>
  Claim C8: for every user whose \<^verbatim>\<open>DMChannel\<close> is not nil, \<^verbatim>\<open>GetHistory\<close> returns exactly
  what the session's \<^verbatim>\<open>ChannelMessages\<close> returns for the DM channel's ID and the unchanged
  limit and before, after and around IDs; that call is the only one made, and the user is
  unchanged.
\<close>

theorem GetHistory_delegates:
  assumes "DMChannel u = Some c"
  shows "GetHistory s u limit beforeID afterID aroundID tr =
           (Inr (ChannelMessages s tr (Channel.ID c) limit beforeID afterID aroundID),
            u,
            tr @ [ChannelMessagesCall (Channel.ID c) limit beforeID afterID aroundID])"
  using assms by (simp add: GetHistory_def)

theorem GetHistory_delegates_witness:
  "DMChannel sample_user_dm = Some sample_channel
   \<and> GetHistory session_up sample_user_dm 50 ''a'' ''b'' ''c'' [] =
       (Inr ([Some sample_message], None), sample_user_dm,
        [ChannelMessagesCall ''dm-17'' 50 ''a'' ''b'' ''c''])"
  using sample_user_dm_channel
    GetHistory_delegates [OF sample_user_dm_channel, of session_up 50 "''a''" "''b''" "''c''" "[]"]
  by (simp add: session_up_def sample_channel_def)

end
